theory Spec2Isabelle
  imports Main "HOL-Library.Word"
begin

unbundle bit_operations_syntax

section \<open>Hacklace firmware: data model\<close>

text \<open>
  The firmware runs on an 8-bit AVR: \<^verbatim>\<open>uint8_t\<close> is an 8-bit word whose arithmetic
  wraps, and a pointer into the EEPROM (\<^verbatim>\<open>uint8_t*\<close>) is a 16-bit word.
\<close>

type_synonym u8 = "8 word"
type_synonym ee_addr = "16 word"

text \<open>
  The dot-matrix driver (\<^verbatim>\<open>dot_matrix.h\<close>) is an external collaborator. Every call
  into it is recorded, in program order, as one element of a list of calls.
  \<^verbatim>\<open>dmDisplayImage(pgm_read_word(&animation[ch]))\<close> is recorded with the index
  \<^verbatim>\<open>ch\<close> of the animation table.
\<close>

datatype dm_call =
    ClearDisplay
  | PrintChar u8
  | PrintByte u8
  | DisplayImage u8
  | SetScrolling u8 u8 u8
  | Scroll

text \<open>
  The constants and tables of \<^verbatim>\<open>config.h\<close>, \<^verbatim>\<open>dot_matrix.h\<close> and
  \<^verbatim>\<open>animations.h\<close> are not part of \<^verbatim>\<open>Hacklace.c\<close>; they are parameters of the
  model. \<open>messages\<close> is the base address of the message store in the EEPROM,
  \<open>dly_conv\<close> and \<open>spd_conv\<close> are the two conversion tables read with
  \<^verbatim>\<open>pgm_read_byte\<close>.
\<close>

record config =
  messages :: ee_addr
  ANIMATION_COUNT :: nat
  dly_conv :: "u8 \<Rightarrow> u8"
  spd_conv :: "u8 \<Rightarrow> u8"
  FORWARD :: u8
  BIDIRECTIONAL :: u8
  PB_MASK :: u8
  PB_PRESS :: u8
  PB_RELEASE :: u8
  PB_LONGPRESS :: u8
  PB_ACK :: u8
  PB_LONGPRESS_DELAY :: u8

text \<open>
  The global variables of the program, the EEPROM contents, and the \<^verbatim>\<open>static\<close>
  variables of the interrupt service routines (\<open>rx_state\<close> and \<open>rx_val\<close> are
  \<^verbatim>\<open>state\<close> and \<^verbatim>\<open>val\<close> of the serial receive interrupt).
\<close>

record hacklace =
  scroll_speed :: u8
  button :: u8
  msg_ptr :: ee_addr
  ee_write_ptr :: ee_addr
  eeprom :: "ee_addr \<Rightarrow> u8"
  rx_state :: u8
  rx_val :: u8
  scroll_timer :: u8
  pb_timer :: u8

text \<open>Serial input states and authentication characters.\<close>

abbreviation (input) IDLE :: u8 where "IDLE \<equiv> 0"
abbreviation (input) AUTH :: u8 where "AUTH \<equiv> 1"
abbreviation (input) RESET :: u8 where "RESET \<equiv> 2"
abbreviation (input) DISP_SET_MODE :: u8 where "DISP_SET_MODE \<equiv> 3"
abbreviation (input) DISP_CHAR :: u8 where "DISP_CHAR \<equiv> 4"
abbreviation (input) EE_NORMAL :: u8 where "EE_NORMAL \<equiv> 5"
abbreviation (input) EE_SPECIAL_CHAR :: u8 where "EE_SPECIAL_CHAR \<equiv> 6"
abbreviation (input) EE_HEX_CODE :: u8 where "EE_HEX_CODE \<equiv> 7"

abbreviation (input) AUTH1_CHAR :: u8 where "AUTH1_CHAR \<equiv> 0x48"
abbreviation (input) EE_AUTH2_CHAR :: u8 where "EE_AUTH2_CHAR \<equiv> 0x4C"
abbreviation (input) DISP_AUTH2_CHAR :: u8 where "DISP_AUTH2_CHAR \<equiv> 0x44"

section \<open>SetMode\<close>

text \<open>The \<^verbatim>\<open>swap\<close> macro exchanges the two nibbles of a byte.\<close>

definition swap :: "u8 \<Rightarrow> u8" where
  "swap x = push_bit 4 x OR drop_bit 4 x"

text \<open>
  \<^verbatim>\<open>SetMode\<close> calls \<^verbatim>\<open>dmSetScrolling\<close> and assigns the global \<open>scroll_speed\<close>;
  the model returns the new scroll speed and the driver call.
\<close>

definition SetMode :: "config \<Rightarrow> u8 \<Rightarrow> u8 \<times> dm_call list" where
  "SetMode cfg mode =
    (let inc = (if mode AND 0x08 \<noteq> 0 then 5 else 1);
         dir = (if mode AND 0x80 \<noteq> 0 then BIDIRECTIONAL cfg else FORWARD cfg);
         spd = mode AND 0x07;
         dly = swap mode AND 0x07
     in (spd_conv cfg spd, [SetScrolling inc dir (dly_conv cfg dly)]))"

section \<open>The serial receive interrupt\<close>

text \<open>\<^verbatim>\<open>eeprom_write_byte(ee_write_ptr++, v)\<close>.\<close>

definition ee_append :: "u8 \<Rightarrow> hacklace \<Rightarrow> hacklace" where
  "ee_append v s =
     s\<lparr>eeprom := (eeprom s)(ee_write_ptr s := v), ee_write_ptr := ee_write_ptr s + 1\<rparr>"

text \<open>
  The \<^verbatim>\<open>switch (state)\<close> of the receive interrupt. A state value without a
  \<^verbatim>\<open>case\<close> label falls through the switch unchanged.
\<close>

definition rx_switch :: "config \<Rightarrow> u8 \<Rightarrow> hacklace \<Rightarrow> hacklace \<times> dm_call list" where
  "rx_switch cfg ch s =
    (if rx_state s = IDLE then
       (s\<lparr>rx_state := (if ch = AUTH1_CHAR then AUTH else IDLE)\<rparr>, [])
     else if rx_state s = AUTH then
       (s\<lparr>rx_state := (if ch = EE_AUTH2_CHAR then EE_NORMAL
                        else if ch = DISP_AUTH2_CHAR then DISP_SET_MODE
                        else IDLE)\<rparr>, [])
     else if rx_state s = RESET then
       (s\<lparr>msg_ptr := messages cfg, ee_write_ptr := messages cfg, rx_state := IDLE\<rparr>,
        [ClearDisplay, PrintChar 129])
     else if rx_state s = DISP_SET_MODE then
       (s\<lparr>scroll_speed := fst (SetMode cfg ch), rx_state := DISP_CHAR\<rparr>,
        ClearDisplay # snd (SetMode cfg ch))
     else if rx_state s = DISP_CHAR then
       (s, if ch = 13 \<or> ch = 10 then [ClearDisplay] else [PrintChar ch, PrintByte 0])
     else if rx_state s = EE_NORMAL then
       (if ch = 0x5E then (s\<lparr>rx_state := EE_SPECIAL_CHAR\<rparr>, [])
        else if ch = 0x24 then (s\<lparr>rx_val := 0, rx_state := EE_HEX_CODE\<rparr>, [])
        else if ch = 13 \<or> ch = 10 then (ee_append 0 s, [])
        else if 0x20 \<le> ch then (ee_append ch s, [])
        else (s, []))
     else if rx_state s = EE_SPECIAL_CHAR then
       ((ee_append (ch + 63) s)\<lparr>rx_state := EE_NORMAL\<rparr>, [])
     else if rx_state s = EE_HEX_CODE then
       (let ch1 = (if 0x41 \<le> ch then ch - (0x41 - 0x39 - 1) else ch);
            ch2 = ch1 - 0x30
        in if 15 < ch2 then ((ee_append (rx_val s) s)\<lparr>rx_state := EE_NORMAL\<rparr>, [])
           else (s\<lparr>rx_val := push_bit 4 (rx_val s) + ch2\<rparr>, []))
     else (s, []))"

text \<open>
  The first two statements after reading the received character: escape forces
  the state \<open>RESET\<close>, and the states from \<open>EE_NORMAL\<close> upwards echo the
  character.
\<close>

definition rx_preempt :: "u8 \<Rightarrow> u8 \<Rightarrow> u8" where
  "rx_preempt ch st = (if ch = 27 then RESET else st)"

definition rx_echo :: "u8 \<Rightarrow> u8 \<Rightarrow> dm_call list" where
  "rx_echo ch st = (if EE_NORMAL \<le> st then [ClearDisplay, PrintChar ch] else [])"

text \<open>
  \<^verbatim>\<open>ISR(USART0_RX_vect)\<close>. \<open>fe\<close> is the framing error flag of \<^verbatim>\<open>UCSRA\<close> and
  \<open>udr\<close> the content of the receive register \<^verbatim>\<open>UDR\<close>.
\<close>

definition USART0_RX :: "config \<Rightarrow> bool \<Rightarrow> u8 \<Rightarrow> hacklace \<Rightarrow> hacklace \<times> dm_call list" where
  "USART0_RX cfg fe udr s =
    (if fe then (s, [])
     else
       let ch = udr;
           s1 = s\<lparr>rx_state := rx_preempt ch (rx_state s)\<rparr>;
           echo = rx_echo ch (rx_state s1);
           r = rx_switch cfg ch s1
       in (fst r, echo @ snd r))"

text \<open>A sequence of received bytes, none with a framing error.\<close>

fun rx_bytes :: "config \<Rightarrow> u8 list \<Rightarrow> hacklace \<Rightarrow> hacklace \<times> dm_call list" where
  "rx_bytes cfg [] s = (s, [])"
| "rx_bytes cfg (b # bs) s =
     (let r1 = USART0_RX cfg False b s; r2 = rx_bytes cfg bs (fst r1)
      in (fst r2, snd r1 @ snd r2))"

section \<open>DisplayMessage\<close>

text \<open>
  \<open>ee\<close> is the EEPROM as \<^verbatim>\<open>eeprom_read_byte\<close> sees it. In the three functions
  below \<open>adr\<close> is the value of \<^verbatim>\<open>ee_adr\<close> (the address of the next byte to read)
  and \<open>ch\<close> the byte read last. A loop that never meets its end marker does not
  return: the result is \<open>None\<close>.
\<close>

text \<open>The inner loop of direct mode: \<^verbatim>\<open>while (ch != 0xFF) { dmPrintByte(ch); ... }\<close>.\<close>

partial_function (option) direct_mode ::
  "(ee_addr \<Rightarrow> u8) \<Rightarrow> ee_addr \<Rightarrow> u8 \<Rightarrow> (ee_addr \<times> dm_call list) option" where
  "direct_mode ee adr ch =
    (if ch \<noteq> 0xFF then
       Option.bind (direct_mode ee (adr + 1) (ee adr))
         (\<lambda>r. Some (fst r, PrintByte ch # snd r))
     else Some (adr, []))"

declare direct_mode.simps [code]

text \<open>
  The body of the outer loop up to, and without, the read of the next
  character: one animation reference, one direct mode run or one character.
\<close>

definition show_unit ::
  "config \<Rightarrow> (ee_addr \<Rightarrow> u8) \<Rightarrow> ee_addr \<Rightarrow> u8 \<Rightarrow> (ee_addr \<times> dm_call list) option" where
  "show_unit cfg ee adr ch =
    (if ch = 0x7E then
       (let ch1 = ee adr in
        if ch1 \<noteq> 0x7E then
          (let ch2 = ch1 - 0x41 in
           if unat ch2 < ANIMATION_COUNT cfg then Some (adr + 1, [DisplayImage ch2])
           else Some (adr + 1, []))
        else Some (adr + 1, []))
     else if ch = 0xFF then direct_mode ee (adr + 1) (ee adr)
     else if ch = 0x5E then
       (let ch1 = ee adr in
        Some (adr + 1, [PrintChar (if ch1 \<noteq> 0x5E then ch1 + 63 else ch1)]))
     else Some (adr, [PrintChar ch]))"

text \<open>
  The narrow space printed after a unit, \<^verbatim>\<open>if (ch) { dmPrintByte(0); }\<close>, where
  \<open>ch\<close> is the character read after the unit.
\<close>

definition narrow_space :: "u8 \<Rightarrow> dm_call list" where
  "narrow_space ch = (if ch \<noteq> 0 then [PrintByte 0] else [])"

text \<open>
  The outer loop \<^verbatim>\<open>while (ch) { ... }\<close>. It returns the value of \<^verbatim>\<open>ee_adr\<close>
  at the end of the loop, which is the address after the terminating zero.
\<close>

partial_function (option) message_loop ::
  "config \<Rightarrow> (ee_addr \<Rightarrow> u8) \<Rightarrow> ee_addr \<Rightarrow> u8 \<Rightarrow> (ee_addr \<times> dm_call list) option" where
  "message_loop cfg ee adr ch =
    (if ch \<noteq> 0 then
       Option.bind (show_unit cfg ee adr ch) (\<lambda>u.
         Option.bind (message_loop cfg ee (fst u + 1) (ee (fst u))) (\<lambda>r.
           Some (fst r, snd u @ narrow_space (ee (fst u)) @ snd r)))
     else Some (adr, []))"

declare message_loop.simps [code]

text \<open>
  \<^verbatim>\<open>DisplayMessage\<close> returns the pointer to the next message; the model returns
  with it the scroll speed that \<^verbatim>\<open>SetMode\<close> has assigned and the driver calls.
\<close>

definition DisplayMessage ::
  "config \<Rightarrow> (ee_addr \<Rightarrow> u8) \<Rightarrow> ee_addr \<Rightarrow> (ee_addr \<times> u8 \<times> dm_call list) option" where
  "DisplayMessage cfg ee ee_adr =
    Option.bind (message_loop cfg ee (ee_adr + 2) (ee (ee_adr + 1))) (\<lambda>r.
      Some (if ee (fst r) \<noteq> 0 then fst r else messages cfg,
            fst (SetMode cfg (ee ee_adr)),
            snd (SetMode cfg (ee ee_adr)) @ ClearDisplay # snd r))"

section \<open>The system timer interrupt and the main loop\<close>

text \<open>
  The push button sampling of \<^verbatim>\<open>ISR(TIMER0_COMPB_vect)\<close>, on the pair of
  \<open>button\<close> and \<open>pb_timer\<close>. \<open>pin\<close> is the value read from \<^verbatim>\<open>PB_PIN\<close>.
\<close>

definition push_button_sampling :: "config \<Rightarrow> u8 \<Rightarrow> u8 \<times> u8 \<Rightarrow> u8 \<times> u8" where
  "push_button_sampling cfg pin bt =
    (let b = fst bt; t = snd bt; temp = NOT pin AND PB_MASK cfg in
     if temp = 0 then
       (if b AND PB_PRESS cfg \<noteq> 0 then (b AND NOT (PB_PRESS cfg OR PB_ACK cfg), t)
        else (b, t))
     else if b AND PB_PRESS cfg = 0 then (PB_PRESS cfg, PB_LONGPRESS_DELAY cfg)
     else if b = PB_PRESS cfg then
       (if t = 0 then (PB_LONGPRESS cfg, t) else (b, t - 1))
     else (b, t))"

text \<open>
  \<^verbatim>\<open>ISR(TIMER0_COMPB_vect)\<close>: scroll pacing, then push button sampling. The
  reprogramming of the compare register \<^verbatim>\<open>OCR0B\<close> is hardware set-up and not
  part of the model.
\<close>

definition TIMER0_COMPB :: "config \<Rightarrow> u8 \<Rightarrow> hacklace \<Rightarrow> hacklace \<times> dm_call list" where
  "TIMER0_COMPB cfg pin s =
    (let bt = push_button_sampling cfg pin (button s, pb_timer s) in
     if scroll_timer s \<noteq> 0 then
       (s\<lparr>scroll_timer := scroll_timer s - 1, button := fst bt, pb_timer := snd bt\<rparr>, [])
     else
       (s\<lparr>scroll_timer := scroll_speed s, button := fst bt, pb_timer := snd bt\<rparr>, [Scroll]))"

text \<open>
  The statement \<^verbatim>\<open>button |= PB_ACK\<close> of \<^verbatim>\<open>main\<close>. It stands after the call of
  \<^verbatim>\<open>GoToSleep\<close> at start-up, after the call of \<^verbatim>\<open>DisplayMessage\<close> for a
  short press and after the call of \<^verbatim>\<open>GoToSleep\<close> for a long press. The
  calls before it last for many ticks (delays, the sleep, the press that wakes
  the controller), and the statement does not test \<open>button\<close> again: it
  applies to whatever value the timer interrupt has left there. The tests of
  the main loop do not change \<open>button\<close>.
\<close>

definition acknowledge :: "config \<Rightarrow> u8 \<Rightarrow> u8" where
  "acknowledge cfg b = b OR PB_ACK cfg"

text \<open>
  The events the main loop tests for. The timer interrupt issues an event when
  it changes \<open>button\<close> to the value the main loop compares with.
\<close>

datatype pb_event = ShortPress | LongPress

definition issued :: "config \<Rightarrow> u8 \<Rightarrow> u8 \<Rightarrow> pb_event list" where
  "issued cfg b b' =
    (if b' \<noteq> b \<and> b' = PB_RELEASE cfg then [ShortPress] else []) @
    (if b' \<noteq> b \<and> b' = PB_LONGPRESS cfg then [LongPress] else [])"

text \<open>
  A run of the button logic: each element of the list is one system tick with
  the sampled pin value, followed by the number of times the main loop
  executes \<^verbatim>\<open>button |= PB_ACK\<close> before the next tick. The statement may fall
  after any tick. The result lists the events issued by the ticks.
\<close>

fun button_events :: "config \<Rightarrow> (u8 \<times> nat) list \<Rightarrow> u8 \<times> u8 \<Rightarrow> pb_event list" where
  "button_events cfg [] bt = []"
| "button_events cfg (x # xs) bt =
    (let bt1 = push_button_sampling cfg (fst x) bt;
         bt2 = ((acknowledge cfg ^^ snd x) (fst bt1), snd bt1)
     in issued cfg (fst bt) (fst bt1) @ button_events cfg xs bt2)"

definition pressed :: "config \<Rightarrow> u8 \<Rightarrow> bool" where
  "pressed cfg pin = (NOT pin AND PB_MASK cfg \<noteq> 0)"

text \<open>
  The number of consecutive pressed samples at which the long press is issued:
  the first sample starts the timer, \<open>PB_LONGPRESS_DELAY\<close> samples count it
  down to zero, the next sample finds it elapsed.
\<close>

definition long_press_samples :: "config \<Rightarrow> nat" where
  "long_press_samples cfg = unat (PB_LONGPRESS_DELAY cfg) + 2"

text \<open>
  The values of the button constants are not part of \<^verbatim>\<open>Hacklace.c\<close>. The
  button logic relies on four relations between them: the release event is the
  value left when the press bit is cleared from \<open>PB_PRESS\<close>, which is zero;
  the acknowledge bit is not part of the press bit; \<open>PB_LONGPRESS\<close> contains
  the press bit, so that a long press still counts as pressed; and
  \<open>PB_LONGPRESS\<close> has a bit outside press and acknowledge, so that the
  release of a long press is not read as a short press.
\<close>

definition button_codes_ok :: "config \<Rightarrow> bool" where
  "button_codes_ok cfg =
    (PB_RELEASE cfg = 0 \<and>
     PB_ACK cfg AND PB_PRESS cfg = 0 \<and>
     PB_LONGPRESS cfg AND PB_PRESS cfg \<noteq> 0 \<and>
     PB_LONGPRESS cfg AND NOT (PB_PRESS cfg OR PB_ACK cfg) \<noteq> 0)"

section \<open>The message format of the specification\<close>

text \<open>
  The units of a message body as the specification lists them: a character, a
  character after the marker \<open>^\<close>, a byte after the marker \<open>~\<close>, and a run of
  raw bytes between two markers \<open>0xFF\<close>.
\<close>

datatype msg_unit = Glyph u8 | Escaped u8 | AnimRef u8 | DirectRun "u8 list"

fun unit_ok :: "msg_unit \<Rightarrow> bool" where
  "unit_ok (Glyph c) = (c \<noteq> 0 \<and> c \<noteq> 0x7E \<and> c \<noteq> 0xFF \<and> c \<noteq> 0x5E)"
| "unit_ok (Escaped b) = True"
| "unit_ok (AnimRef b) = True"
| "unit_ok (DirectRun bs) = (0xFF \<notin> set bs)"

fun encode_unit :: "msg_unit \<Rightarrow> u8 list" where
  "encode_unit (Glyph c) = [c]"
| "encode_unit (Escaped b) = [0x5E, b]"
| "encode_unit (AnimRef b) = [0x7E, b]"
| "encode_unit (DirectRun bs) = 0xFF # bs @ [0xFF]"

fun encode_units :: "msg_unit list \<Rightarrow> u8 list" where
  "encode_units [] = []"
| "encode_units (u # us) = encode_unit u @ encode_units us"

text \<open>The bytes \<open>bs\<close> are stored in the EEPROM from address \<open>adr\<close> on.\<close>

fun stored :: "(ee_addr \<Rightarrow> u8) \<Rightarrow> ee_addr \<Rightarrow> u8 list \<Rightarrow> bool" where
  "stored ee adr [] = True"
| "stored ee adr (b # bs) = (ee adr = b \<and> stored ee (adr + 1) bs)"

text \<open>
  What the code displays for one unit, and for a list of units with a narrow
  space between two neighbours.
\<close>

fun unit_calls :: "config \<Rightarrow> msg_unit \<Rightarrow> dm_call list" where
  "unit_calls cfg (Glyph c) = [PrintChar c]"
| "unit_calls cfg (Escaped b) = [PrintChar (if b = 0x5E then 0x5E else b + 63)]"
| "unit_calls cfg (AnimRef b) =
     (if b \<noteq> 0x7E \<and> unat (b - 0x41) < ANIMATION_COUNT cfg then [DisplayImage (b - 0x41)]
      else [])"
| "unit_calls cfg (DirectRun bs) = map PrintByte bs"

fun units_calls :: "config \<Rightarrow> msg_unit list \<Rightarrow> dm_call list" where
  "units_calls cfg [] = []"
| "units_calls cfg [u] = unit_calls cfg u"
| "units_calls cfg (u # v # us) = unit_calls cfg u @ PrintByte 0 # units_calls cfg (v # us)"

section \<open>A sample configuration and sample stores\<close>

text \<open>The EEPROM holding the bytes \<open>bs\<close> from address 0 on, and zero elsewhere.\<close>

definition ee_of :: "u8 list \<Rightarrow> ee_addr \<Rightarrow> u8" where
  "ee_of bs a = (if unat a < length bs then bs ! unat a else 0)"

definition sample_config :: config where
  "sample_config =
    \<lparr>messages = 0, ANIMATION_COUNT = 3, dly_conv = (\<lambda>i. i), spd_conv = (\<lambda>i. i),
     FORWARD = 0, BIDIRECTIONAL = 1, PB_MASK = 0x40, PB_PRESS = 1, PB_RELEASE = 0,
     PB_LONGPRESS = 3, PB_ACK = 0x80, PB_LONGPRESS_DELAY = 2\<rparr>"

definition sample_state :: hacklace where
  "sample_state =
    \<lparr>scroll_speed = 8, button = 0x80, msg_ptr = 4, ee_write_ptr = 9,
     eeprom = ee_of [3, 0x48, 0x49, 0, 5, 0x7E, 0x7E, 0, 0],
     rx_state = 0, rx_val = 0, scroll_timer = 1, pb_timer = 0\<rparr>"

section \<open>Properties of the serial receive interrupt\<close>

lemma rx_step:
  "USART0_RX cfg False ch s =
     (fst (rx_switch cfg ch (s\<lparr>rx_state := rx_preempt ch (rx_state s)\<rparr>)),
      rx_echo ch (rx_preempt ch (rx_state s)) @
      snd (rx_switch cfg ch (s\<lparr>rx_state := rx_preempt ch (rx_state s)\<rparr>)))"
  by (simp add: USART0_RX_def Let_def)

text \<open>
  C3: from every state of the serial state machine and for every value of the
  play cursor \<open>msg_ptr\<close> and the write cursor \<open>ee_write_ptr\<close>, one received
  byte 27 (no framing error) leaves the machine in \<open>IDLE\<close> with both cursors
  at the base address \<open>messages\<close> of the store; the display is cleared and the
  logo, character 129, is shown. Nothing else of the state changes.
\<close>

theorem escape_resets:
  "fst (USART0_RX cfg False 27 s) =
     s\<lparr>msg_ptr := messages cfg, ee_write_ptr := messages cfg, rx_state := IDLE\<rparr>
   \<and> snd (USART0_RX cfg False 27 s) = [ClearDisplay, PrintChar 129]"
  by (simp add: USART0_RX_def rx_preempt_def rx_echo_def rx_switch_def)

text \<open>
  The mapping of hex digits in state \<open>EE_HEX_CODE\<close>: the bytes that do not end
  the literal are \<open>0x30..0x3F\<close> and \<open>0x41..0x46\<close>.
\<close>

lemma hex_digit_cases:
  fixes ch :: u8
  shows "(15 < (if 0x41 \<le> ch then ch - (0x41 - 0x39 - 1) else ch) - 0x30) =
         (\<not> ((0x30 \<le> ch \<and> ch \<le> 0x3F) \<or> (0x41 \<le> ch \<and> ch \<le> 0x46)))"
  apply unat_arith
  apply simp
  apply arith
  done

text \<open>
  C4 (as stated): in \<open>EE_HEX_CODE\<close> every byte outside \<open>'0'..'9'\<close>,
  \<open>'A'..'F'\<close> ends the literal. The byte \<open>':'\<close> (0x3A) is outside that
  alphabet; the code takes it as the digit 10: the state stays \<open>EE_HEX_CODE\<close>,
  the accumulator 4 becomes 0x4A, and nothing is appended to the store.
\<close>

theorem hex_code_colon_counterexample:
  "rx_state (fst (USART0_RX sample_config False 0x3A
      (sample_state\<lparr>rx_state := EE_HEX_CODE, rx_val := 4\<rparr>))) = EE_HEX_CODE
   \<and> rx_val (fst (USART0_RX sample_config False 0x3A
      (sample_state\<lparr>rx_state := EE_HEX_CODE, rx_val := 4\<rparr>))) = 0x4A
   \<and> ee_write_ptr (fst (USART0_RX sample_config False 0x3A
      (sample_state\<lparr>rx_state := EE_HEX_CODE, rx_val := 4\<rparr>))) = ee_write_ptr sample_state
   \<and> eeprom (fst (USART0_RX sample_config False 0x3A
      (sample_state\<lparr>rx_state := EE_HEX_CODE, rx_val := 4\<rparr>))) = eeprom sample_state"
  by (simp add: USART0_RX_def rx_preempt_def rx_echo_def rx_switch_def Let_def sample_state_def)

text \<open>
  C4 (amended): in \<open>EE_HEX_CODE\<close>, a received byte other than 27 in
  \<open>'0'..'9'\<close>, in \<open>'A'..'F'\<close>, or in \<open>':'..'?'\<close> (0x3A..0x3F, taken as the
  digits 10..15) is accumulated, accumulator := accumulator * 16 + digit in
  byte arithmetic, and the state stays \<open>EE_HEX_CODE\<close>. Every other byte
  except 27 ends the literal: the accumulator is written at the write cursor,
  the write cursor advances by one, the state becomes \<open>EE_NORMAL\<close>, and the
  byte itself has no further effect on the store or the state. In both cases
  the byte is echoed to the display.
\<close>

theorem hex_code_step:
  assumes "rx_state s = EE_HEX_CODE" and "ch \<noteq> 27"
  shows "fst (USART0_RX cfg False ch s) =
      (if (0x30 \<le> ch \<and> ch \<le> 0x3F) \<or> (0x41 \<le> ch \<and> ch \<le> 0x46)
       then s\<lparr>rx_val := rx_val s * 16 + (if 0x41 \<le> ch then ch - 0x37 else ch - 0x30)\<rparr>
       else s\<lparr>eeprom := (eeprom s)(ee_write_ptr s := rx_val s),
              ee_write_ptr := ee_write_ptr s + 1, rx_state := EE_NORMAL\<rparr>)
    \<and> snd (USART0_RX cfg False ch s) = [ClearDisplay, PrintChar ch]"
  using assms
  by (simp add: USART0_RX_def rx_preempt_def rx_echo_def rx_switch_def Let_def hex_digit_cases
        ee_append_def push_bit_eq_mult del: One_nat_def)

theorem hex_code_step_witness:
  "fst (USART0_RX sample_config False 0x46
      (sample_state\<lparr>rx_state := EE_HEX_CODE, rx_val := 4\<rparr>)) =
     sample_state\<lparr>rx_state := EE_HEX_CODE, rx_val := 0x4F\<rparr>
   \<and> fst (USART0_RX sample_config False 0x20
      (sample_state\<lparr>rx_state := EE_HEX_CODE, rx_val := 0x41\<rparr>)) =
     sample_state\<lparr>rx_state := EE_NORMAL, rx_val := 0x41,
       eeprom := (eeprom sample_state)(9 := 0x41), ee_write_ptr := 10\<rparr>"
  using hex_code_step [of "sample_state\<lparr>rx_state := EE_HEX_CODE, rx_val := 4\<rparr>" "0x46" sample_config]
    hex_code_step [of "sample_state\<lparr>rx_state := EE_HEX_CODE, rx_val := 0x41\<rparr>" "0x20" sample_config]
  by (simp add: sample_state_def)

text \<open>
  C5 (as stated): the bytes \<open>H L $ 4 1 space\<close> append two bytes, 0x41 and
  then the space. On the sample state, whose write cursor is 9, the write
  cursor is 10 afterwards, address 9 holds 0x41 and address 10 does not hold
  the space: one byte has been appended.
\<close>

theorem hex_literal_space_counterexample:
  "ee_write_ptr (fst (rx_bytes sample_config [0x48, 0x4C, 0x24, 0x34, 0x31, 0x20] sample_state)) = 10
   \<and> ee_write_ptr sample_state = 9
   \<and> eeprom (fst (rx_bytes sample_config [0x48, 0x4C, 0x24, 0x34, 0x31, 0x20] sample_state)) 9 = 0x41
   \<and> eeprom (fst (rx_bytes sample_config [0x48, 0x4C, 0x24, 0x34, 0x31, 0x20] sample_state)) 10 \<noteq> 0x20
   \<and> rx_state sample_state = IDLE"
  by code_simp

text \<open>
  C5 (amended): from state \<open>IDLE\<close>, the bytes \<open>H L $ 4 1 space\<close> append
  exactly one byte, 0x41, at the write cursor, which advances by one. The
  space ends the hex literal and is consumed: it is echoed to the display and
  not appended. The machine is in \<open>EE_NORMAL\<close> afterwards.
\<close>

theorem hex_literal_space:
  "fst (rx_bytes cfg [0x48, 0x4C, 0x24, 0x34, 0x31, 0x20] (s\<lparr>rx_state := IDLE\<rparr>)) =
     s\<lparr>eeprom := (eeprom s)(ee_write_ptr s := 0x41), ee_write_ptr := ee_write_ptr s + 1,
       rx_state := EE_NORMAL, rx_val := 0x41\<rparr>
   \<and> snd (rx_bytes cfg [0x48, 0x4C, 0x24, 0x34, 0x31, 0x20] (s\<lparr>rx_state := IDLE\<rparr>)) =
     [ClearDisplay, PrintChar 0x24, ClearDisplay, PrintChar 0x34,
      ClearDisplay, PrintChar 0x31, ClearDisplay, PrintChar 0x20]"
proof -
  have 1: "USART0_RX cfg False 0x48 (s\<lparr>rx_state := IDLE\<rparr>) = (s\<lparr>rx_state := AUTH\<rparr>, [])"
    by (simp add: rx_step rx_preempt_def rx_echo_def rx_switch_def)
  have 2: "USART0_RX cfg False 0x4C (s\<lparr>rx_state := AUTH\<rparr>) = (s\<lparr>rx_state := EE_NORMAL\<rparr>, [])"
    by (simp add: rx_step rx_preempt_def rx_echo_def rx_switch_def word_le_nat_alt)
  have 3: "USART0_RX cfg False 0x24 (s\<lparr>rx_state := EE_NORMAL\<rparr>) =
      (s\<lparr>rx_state := EE_HEX_CODE, rx_val := 0\<rparr>, [ClearDisplay, PrintChar 0x24])"
    by (simp add: rx_step rx_preempt_def rx_echo_def rx_switch_def)
  have 4: "USART0_RX cfg False 0x34 (s\<lparr>rx_state := EE_HEX_CODE, rx_val := 0\<rparr>) =
      (s\<lparr>rx_state := EE_HEX_CODE, rx_val := 4\<rparr>, [ClearDisplay, PrintChar 0x34])"
    by (simp add: rx_step rx_preempt_def rx_echo_def rx_switch_def)
  have 5: "USART0_RX cfg False 0x31 (s\<lparr>rx_state := EE_HEX_CODE, rx_val := 4\<rparr>) =
      (s\<lparr>rx_state := EE_HEX_CODE, rx_val := 0x41\<rparr>, [ClearDisplay, PrintChar 0x31])"
    by (simp add: rx_step rx_preempt_def rx_echo_def rx_switch_def)
  have 6: "USART0_RX cfg False 0x20 (s\<lparr>rx_state := EE_HEX_CODE, rx_val := 0x41\<rparr>) =
      (s\<lparr>eeprom := (eeprom s)(ee_write_ptr s := 0x41), ee_write_ptr := ee_write_ptr s + 1,
         rx_state := EE_NORMAL, rx_val := 0x41\<rparr>, [ClearDisplay, PrintChar 0x20])"
    by (simp add: rx_step rx_preempt_def rx_echo_def rx_switch_def ee_append_def)
  show ?thesis
    by (simp add: 1 2 3 4 5 6)
qed

text \<open>
  C7 (as stated): in \<open>DISP_SET_MODE\<close> and \<open>DISP_CHAR\<close> the received byte is
  echoed as a clear of the display followed by a rendering of the byte. With
  the byte \<open>'A'\<close>: in \<open>DISP_CHAR\<close> the display is not cleared, and in
  \<open>DISP_SET_MODE\<close> the byte is not rendered.
\<close>

theorem echo_display_mode_counterexample:
  "ClearDisplay \<notin> set (snd (USART0_RX sample_config False 0x41
      (sample_state\<lparr>rx_state := DISP_CHAR\<rparr>)))
   \<and> PrintChar 0x41 \<notin> set (snd (USART0_RX sample_config False 0x41
      (sample_state\<lparr>rx_state := DISP_SET_MODE\<rparr>)))"
  by (simp add: USART0_RX_def rx_preempt_def rx_echo_def rx_switch_def Let_def sample_state_def
        sample_config_def SetMode_def)

text \<open>
  C7 (amended): a received byte is echoed, as a clear of the display followed
  by a rendering of the byte and ahead of the calls of the state's own
  processing, exactly when the byte is not 27 and the state is \<open>EE_NORMAL\<close>
  or above (\<open>EE_NORMAL\<close>, \<open>EE_SPECIAL_CHAR\<close>, \<open>EE_HEX_CODE\<close>). In
  \<open>DISP_SET_MODE\<close> and \<open>DISP_CHAR\<close> there is no echo: the calls are those of
  the state's own processing alone.
\<close>

theorem echo_from_ee_normal:
  "snd (USART0_RX cfg False ch s) =
     (if ch \<noteq> 27 \<and> EE_NORMAL \<le> rx_state s then [ClearDisplay, PrintChar ch] else []) @
     snd (rx_switch cfg ch (s\<lparr>rx_state := rx_preempt ch (rx_state s)\<rparr>))
   \<and> (rx_state s = DISP_SET_MODE \<and> ch \<noteq> 27 \<longrightarrow>
        snd (USART0_RX cfg False ch s) = ClearDisplay # snd (SetMode cfg ch))
   \<and> (rx_state s = DISP_CHAR \<and> ch \<noteq> 27 \<longrightarrow>
        snd (USART0_RX cfg False ch s) =
          (if ch = 13 \<or> ch = 10 then [ClearDisplay] else [PrintChar ch, PrintByte 0]))"
  by (simp add: USART0_RX_def rx_preempt_def rx_echo_def rx_switch_def Let_def)

theorem echo_from_ee_normal_witness:
  "snd (USART0_RX sample_config False 0x41 (sample_state\<lparr>rx_state := EE_NORMAL\<rparr>)) =
     [ClearDisplay, PrintChar 0x41]
   \<and> snd (USART0_RX sample_config False 0x41 (sample_state\<lparr>rx_state := DISP_SET_MODE\<rparr>)) =
     [ClearDisplay, SetScrolling 1 0 4]
   \<and> snd (USART0_RX sample_config False 0x41 (sample_state\<lparr>rx_state := DISP_CHAR\<rparr>)) =
     [PrintChar 0x41, PrintByte 0]"
proof -
  have "snd (rx_switch sample_config 0x41 (sample_state\<lparr>rx_state := EE_NORMAL\<rparr>)) = []"
    by (simp add: rx_switch_def)
  moreover have "snd (SetMode sample_config 0x41) = [SetScrolling 1 0 4]"
    by (simp add: SetMode_def swap_def sample_config_def)
  ultimately show ?thesis
    using echo_from_ee_normal [of sample_config "0x41" "sample_state\<lparr>rx_state := EE_NORMAL\<rparr>"]
      echo_from_ee_normal [of sample_config "0x41" "sample_state\<lparr>rx_state := DISP_SET_MODE\<rparr>"]
      echo_from_ee_normal [of sample_config "0x41" "sample_state\<lparr>rx_state := DISP_CHAR\<rparr>"]
    by (auto simp: rx_preempt_def)
qed

text \<open>
  C8 (as stated): byte 27 leaves the machine in \<open>RESET\<close>, and the reset is
  done on receipt of the following byte. On the sample state in
  \<open>EE_NORMAL\<close>, whose write cursor is 9: after the byte 27 alone the state is
  not \<open>RESET\<close> and the write cursor is already at the base address 0; a
  following \<open>'H'\<close> is handled in \<open>IDLE\<close> and leads to \<open>AUTH\<close>.
\<close>

theorem escape_next_byte_counterexample:
  "rx_state (fst (USART0_RX sample_config False 27 (sample_state\<lparr>rx_state := EE_NORMAL\<rparr>))) \<noteq> RESET
   \<and> ee_write_ptr (sample_state\<lparr>rx_state := EE_NORMAL\<rparr>) = 9
   \<and> ee_write_ptr (fst (USART0_RX sample_config False 27 (sample_state\<lparr>rx_state := EE_NORMAL\<rparr>))) = 0
   \<and> rx_state (fst (rx_bytes sample_config [27, 0x48] (sample_state\<lparr>rx_state := EE_NORMAL\<rparr>))) = AUTH"
  by code_simp

text \<open>
  C8 (amended): in every serial state the byte 27 forces the state to
  \<open>RESET\<close> before the switch; the \<open>RESET\<close> case then runs for that same
  byte, whatever the byte: it sets the play cursor and the write cursor to the
  base of the store, clears the display, shows the logo and returns to
  \<open>IDLE\<close>. The bytes that follow are processed from \<open>IDLE\<close>.
\<close>

theorem escape_same_byte:
  "rx_preempt 27 st = RESET
   \<and> rx_switch cfg ch (s\<lparr>rx_state := RESET\<rparr>) =
       (s\<lparr>msg_ptr := messages cfg, ee_write_ptr := messages cfg, rx_state := IDLE\<rparr>,
        [ClearDisplay, PrintChar 129])
   \<and> rx_state (fst (USART0_RX cfg False 27 s)) = IDLE
   \<and> rx_bytes cfg (27 # bs) s =
       (fst (rx_bytes cfg bs
          (s\<lparr>msg_ptr := messages cfg, ee_write_ptr := messages cfg, rx_state := IDLE\<rparr>)),
        [ClearDisplay, PrintChar 129] @
        snd (rx_bytes cfg bs
          (s\<lparr>msg_ptr := messages cfg, ee_write_ptr := messages cfg, rx_state := IDLE\<rparr>)))"
  by (simp add: USART0_RX_def rx_preempt_def rx_echo_def rx_switch_def Let_def)

section \<open>Properties of DisplayMessage\<close>

text \<open>
  A message whose body is the encoding of a list of units, followed by the
  terminating zero, is decoded unit by unit: the outer loop returns the
  address after the terminator and the calls of the units with one narrow
  space between two neighbours.
\<close>

lemma stored_append:
  "stored ee adr (xs @ ys) = (stored ee adr xs \<and> stored ee (adr + of_nat (length xs)) ys)"
  by (induction xs arbitrary: adr) (auto simp: add.assoc add.commute add.left_commute)

lemma direct_mode_run:
  "0xFF \<notin> set bs \<Longrightarrow> stored ee adr (bs @ [0xFF]) \<Longrightarrow>
   direct_mode ee (adr + 1) (ee adr) = Some (adr + 1 + of_nat (length bs), map PrintByte bs)"
proof (induction bs arbitrary: adr)
  case Nil
  then show ?case by (simp add: direct_mode.simps)
next
  case (Cons b bs)
  from Cons.prems have b: "ee adr = b" "b \<noteq> 0xFF" and rest: "stored ee (adr + 1) (bs @ [0xFF])"
    and nf: "0xFF \<notin> set bs"
    by auto
  have "direct_mode ee (adr + 1 + 1) (ee (adr + 1)) =
        Some (adr + 1 + 1 + of_nat (length bs), map PrintByte bs)"
    using Cons.IH [OF nf rest] .
  then show ?case
    using b by (subst direct_mode.simps) (simp add: add.assoc add.commute add.left_commute)
qed

lemma show_unit_encoded:
  assumes "unit_ok u" and "stored ee adr (encode_unit u)"
  shows "show_unit cfg ee (adr + 1) (ee adr) =
         Some (adr + of_nat (length (encode_unit u)), unit_calls cfg u)"
proof (cases u)
  case (Glyph c)
  with assms show ?thesis by (simp add: show_unit_def)
next
  case (Escaped b)
  with assms show ?thesis by (auto simp: show_unit_def Let_def)
next
  case (AnimRef b)
  with assms show ?thesis by (auto simp: show_unit_def Let_def)
next
  case (DirectRun bs)
  with assms have "ee adr = 0xFF" "0xFF \<notin> set bs" "stored ee (adr + 1) (bs @ [0xFF])"
    by auto
  then have run: "direct_mode ee (adr + 1 + 1) (ee (adr + 1)) =
      Some (adr + 1 + 1 + of_nat (length bs), map PrintByte bs)"
    using direct_mode_run [of bs ee "adr + 1"] by simp
  have "show_unit cfg ee (adr + 1) 0xFF = direct_mode ee (adr + 1 + 1) (ee (adr + 1))"
    by (simp add: show_unit_def)
  with run \<open>ee adr = 0xFF\<close> DirectRun show ?thesis
    by (simp add: add.assoc)
qed

lemma encode_unit_first:
  "unit_ok u \<Longrightarrow> stored ee adr (encode_unit u @ rest) \<Longrightarrow> ee adr \<noteq> 0"
  by (cases u) auto

lemma message_loop_units:
  "list_all unit_ok us \<Longrightarrow> stored ee adr (encode_units us @ [0]) \<Longrightarrow>
   message_loop cfg ee (adr + 1) (ee adr) =
     Some (adr + of_nat (length (encode_units us)) + 1, units_calls cfg us)"
proof (induction us arbitrary: adr)
  case Nil
  then show ?case by (simp add: message_loop.simps)
next
  case (Cons u us)
  let ?n = "of_nat (length (encode_unit u)) :: ee_addr"
  from Cons.prems have ok: "unit_ok u" "list_all unit_ok us"
    and su: "stored ee adr (encode_unit u)"
    and sr: "stored ee (adr + ?n) (encode_units us @ [0])"
    by (auto simp: stored_append)
  have nz: "ee adr \<noteq> 0"
    using encode_unit_first [of u ee adr "encode_units us @ [0]"] Cons.prems by simp
  have unit: "show_unit cfg ee (adr + 1) (ee adr) = Some (adr + ?n, unit_calls cfg u)"
    using show_unit_encoded [OF ok(1) su] .
  have rest: "message_loop cfg ee (adr + ?n + 1) (ee (adr + ?n)) =
     Some (adr + ?n + of_nat (length (encode_units us)) + 1, units_calls cfg us)"
    using Cons.IH [OF ok(2) sr] .
  have sp: "narrow_space (ee (adr + ?n)) @ units_calls cfg us =
            (if us = [] then [] else PrintByte 0 # units_calls cfg us)"
  proof (cases us)
    case Nil
    with sr show ?thesis by (simp add: narrow_space_def)
  next
    case (Cons v vs)
    with ok(2) sr have "ee (adr + ?n) \<noteq> 0"
      using encode_unit_first [of v ee "adr + ?n" "encode_units vs @ [0]"] by simp
    with Cons show ?thesis by (simp add: narrow_space_def)
  qed
  have calls: "unit_calls cfg u @ (if us = [] then [] else PrintByte 0 # units_calls cfg us) =
               units_calls cfg (u # us)"
    by (cases us) simp_all
  show ?case
    apply (subst message_loop.simps)
    apply (simp add: nz unit rest sp calls del: units_calls.simps)
    done
qed

lemma DisplayMessage_units:
  assumes "list_all unit_ok us" and "stored ee (ee_adr + 1) (encode_units us @ [0])"
  shows "DisplayMessage cfg ee ee_adr =
     Some (if ee (ee_adr + 1 + of_nat (length (encode_units us)) + 1) \<noteq> 0
           then ee_adr + 1 + of_nat (length (encode_units us)) + 1 else messages cfg,
           fst (SetMode cfg (ee ee_adr)),
           snd (SetMode cfg (ee ee_adr)) @ ClearDisplay # units_calls cfg us)"
  using message_loop_units [OF assms, of cfg]
  by (simp add: DisplayMessage_def add.assoc)

text \<open>
  Whenever the outer loop returns, the byte before the returned address is a
  zero read at the start of a unit; whenever \<^verbatim>\<open>DisplayMessage\<close> returns, it
  returns the address after such a zero or the base of the store.
\<close>

lemma message_loop_returns:
  assumes "message_loop cfg ee adr ch = Some r"
  shows "(ch = 0 \<and> fst r = adr) \<or> (ch \<noteq> 0 \<and> ee (fst r - 1) = 0)"
proof (rule message_loop.raw_induct
    [where P = "\<lambda>c e a h y. (h = 0 \<and> fst y = a) \<or> (h \<noteq> 0 \<and> e (fst y - 1) = 0)",
     OF _ assms])
  fix loop :: "config \<Rightarrow> (ee_addr \<Rightarrow> u8) \<Rightarrow> ee_addr \<Rightarrow> u8 \<Rightarrow> (ee_addr \<times> dm_call list) option"
    and c e a h y
  assume IH: "\<And>c' e' a' h' y'. loop c' e' a' h' = Some y' \<Longrightarrow>
      (h' = 0 \<and> fst y' = a') \<or> (h' \<noteq> 0 \<and> e' (fst y' - 1) = 0)"
  assume eq: "(if h \<noteq> 0
      then Option.bind (show_unit c e a h) (\<lambda>u.
        Option.bind (loop c e (fst u + 1) (e (fst u))) (\<lambda>r.
          Some (fst r, snd u @ narrow_space (e (fst u)) @ snd r)))
      else Some (a, [])) = Some y"
  show "(h = 0 \<and> fst y = a) \<or> (h \<noteq> 0 \<and> e (fst y - 1) = 0)"
  proof (cases "h = 0")
    case True
    with eq show ?thesis by auto
  next
    case False
    with eq obtain u y' where
      u: "show_unit c e a h = Some u"
      and y': "loop c e (fst u + 1) (e (fst u)) = Some y'"
      and y: "y = (fst y', snd u @ narrow_space (e (fst u)) @ snd y')"
      by (auto simp: bind_eq_Some_conv)
    from IH [OF y'] have "(e (fst u) = 0 \<and> fst y' = fst u + 1) \<or> e (fst y' - 1) = 0"
      by auto
    then have "e (fst y' - 1) = 0" by auto
    with False y show ?thesis by simp
  qed
qed

lemma DisplayMessage_returns:
  assumes "DisplayMessage cfg ee ee_adr = Some r"
  shows "\<exists>t. ee t = 0 \<and> fst r = (if ee (t + 1) \<noteq> 0 then t + 1 else messages cfg)"
proof -
  from assms obtain r' where r': "message_loop cfg ee (ee_adr + 2) (ee (ee_adr + 1)) = Some r'"
    and r: "fst r = (if ee (fst r') \<noteq> 0 then fst r' else messages cfg)"
    by (auto simp: DisplayMessage_def bind_eq_Some_conv)
  from message_loop_returns [OF r'] have "ee (fst r' - 1) = 0"
    by (auto simp: add.commute)
  with r show ?thesis
    by (intro exI [of _ "fst r' - 1"]) simp
qed

text \<open>
  C1: a stored message body is decoded into the display calls of its units
  with one narrow space between two units; among the units, \<open>~~\<close> is to
  render the literal \<open>~\<close>. The sample store holds at address 4 the message
  with mode byte 5 and body \<open>~~\<close>: the code clears the display and prints
  nothing, the character \<open>~\<close> (0x7E) is not among the calls.
\<close>

theorem tilde_tilde_shows_nothing:
  "DisplayMessage sample_config (ee_of [3, 0x48, 0x49, 0, 5, 0x7E, 0x7E, 0, 0]) 4 =
     Some (0, 5, [SetScrolling 1 0 0, ClearDisplay])
   \<and> PrintChar 0x7E \<notin> set (snd (snd (the
        (DisplayMessage sample_config (ee_of [3, 0x48, 0x49, 0, 5, 0x7E, 0x7E, 0, 0]) 4))))"
  by code_simp

text \<open>
  C2: when the decoding of the message at \<open>ee_adr\<close> reaches the zero
  terminator of its body, \<^verbatim>\<open>DisplayMessage\<close> returns: the address after the
  terminator if the byte there (the mode byte of the next message) is not
  zero, and the base address \<open>messages\<close> of the store if it is zero. The body
  is any list of units; the terminator is at
  \<open>ee_adr + 1 + length (encode_units us)\<close>.
\<close>

theorem next_message_pointer:
  assumes "list_all unit_ok us" and "stored ee (ee_adr + 1) (encode_units us @ [0])"
  shows "map_option fst (DisplayMessage cfg ee ee_adr) =
     Some (if ee (ee_adr + 1 + of_nat (length (encode_units us)) + 1) \<noteq> 0
           then ee_adr + 1 + of_nat (length (encode_units us)) + 1 else messages cfg)"
  using DisplayMessage_units [OF assms, of cfg] by simp

theorem next_message_pointer_witness:
  "map_option fst (DisplayMessage sample_config (ee_of [3, 0x48, 0x49, 0, 5, 0x7E, 0x7E, 0, 0]) 0) = Some 4
   \<and> map_option fst (DisplayMessage sample_config (ee_of [3, 0x48, 0x49, 0, 5, 0x7E, 0x7E, 0, 0]) 4) = Some 0"
  using next_message_pointer [of "[Glyph 0x48, Glyph 0x49]" "ee_of [3, 0x48, 0x49, 0, 5, 0x7E, 0x7E, 0, 0]" 0 sample_config]
    next_message_pointer [of "[AnimRef 0x7E]" "ee_of [3, 0x48, 0x49, 0, 5, 0x7E, 0x7E, 0, 0]" 4 sample_config]
  by (simp add: ee_of_def sample_config_def)

text \<open>
  C9: in the decoding of a message, the marker \<open>~\<close> followed by a byte other
  than \<open>~\<close> whose index, the byte minus \<open>'A'\<close> in byte arithmetic, is not
  below \<open>ANIMATION_COUNT\<close> makes no call to the display for that unit, and
  the loop goes on with the bytes after it: the next byte is read, a narrow
  space is printed if it is not zero, and decoding continues from there.
  \<open>adr\<close> is the address of the byte after the marker.
\<close>

theorem animation_out_of_range:
  assumes "ee adr \<noteq> 0x7E" and "\<not> unat (ee adr - 0x41) < ANIMATION_COUNT cfg"
  shows "show_unit cfg ee adr 0x7E = Some (adr + 1, [])
     \<and> message_loop cfg ee adr 0x7E =
         Option.bind (message_loop cfg ee (adr + 2) (ee (adr + 1)))
           (\<lambda>r. Some (fst r, narrow_space (ee (adr + 1)) @ snd r))"
proof -
  have u: "show_unit cfg ee adr 0x7E = Some (adr + 1, [])"
    using assms by (simp add: show_unit_def Let_def)
  have "message_loop cfg ee adr 0x7E =
         Option.bind (message_loop cfg ee (adr + 1 + 1) (ee (adr + 1)))
           (\<lambda>r. Some (fst r, narrow_space (ee (adr + 1)) @ snd r))"
    by (subst message_loop.simps) (simp add: u)
  with u show ?thesis by (simp add: add.assoc)
qed

theorem animation_out_of_range_witness:
  "show_unit sample_config (ee_of [3, 0x7E, 0x5A, 0x41, 0]) 2 0x7E = Some (3, [])
   \<and> message_loop sample_config (ee_of [3, 0x7E, 0x5A, 0x41, 0]) 2 0x7E =
       Some (5, [PrintByte 0, PrintChar 0x41])"
proof -
  have b: "ee_of [3, 0x7E, 0x5A, 0x41, 0] 2 = 0x5A" "ee_of [3, 0x7E, 0x5A, 0x41, 0] 3 = 0x41"
    by (simp_all add: ee_of_def)
  have n: "ANIMATION_COUNT sample_config = 3"
    by (simp add: sample_config_def)
  have rest: "message_loop sample_config (ee_of [3, 0x7E, 0x5A, 0x41, 0]) 4 0x41 = Some (5, [PrintChar 0x41])"
    by code_simp
  show ?thesis
    using animation_out_of_range [of "ee_of [3, 0x7E, 0x5A, 0x41, 0]" 2 sample_config]
    by (simp add: b n rest narrow_space_def)
qed

text \<open>
  C10: a zero byte ends the message only where a unit starts. With a zero
  stored at address \<open>a\<close>: read after the marker \<open>^\<close> it is printed as
  character 63; read after the marker \<open>~\<close> it is an animation index out of
  range (191, given an animation count of at most 191) and nothing is shown;
  read inside a direct mode run it is written as a blank column. In all
  three cases decoding goes on with the byte at \<open>a + 1\<close>.
\<close>

theorem zero_inside_unit:
  assumes "ee a = 0" and "ANIMATION_COUNT cfg \<le> 191"
  shows "message_loop cfg ee a 0x5E =
           Option.bind (message_loop cfg ee (a + 2) (ee (a + 1)))
             (\<lambda>r. Some (fst r, PrintChar 63 # narrow_space (ee (a + 1)) @ snd r))
     \<and> message_loop cfg ee a 0x7E =
           Option.bind (message_loop cfg ee (a + 2) (ee (a + 1)))
             (\<lambda>r. Some (fst r, narrow_space (ee (a + 1)) @ snd r))
     \<and> direct_mode ee (a + 1) (ee a) =
           Option.bind (direct_mode ee (a + 2) (ee (a + 1)))
             (\<lambda>r. Some (fst r, PrintByte 0 # snd r))"
proof -
  have i: "unat (0 - 0x41 :: u8) = 191" by simp
  have u1: "show_unit cfg ee a 0x5E = Some (a + 1, [PrintChar 63])"
    using assms by (simp add: show_unit_def Let_def)
  have u2: "show_unit cfg ee a 0x7E = Some (a + 1, [])"
    using assms i by (simp add: show_unit_def Let_def)
  have 1: "message_loop cfg ee a 0x5E =
           Option.bind (message_loop cfg ee (a + 1 + 1) (ee (a + 1)))
             (\<lambda>r. Some (fst r, PrintChar 63 # narrow_space (ee (a + 1)) @ snd r))"
    by (subst message_loop.simps) (simp add: u1)
  have 2: "message_loop cfg ee a 0x7E =
           Option.bind (message_loop cfg ee (a + 1 + 1) (ee (a + 1)))
             (\<lambda>r. Some (fst r, narrow_space (ee (a + 1)) @ snd r))"
    by (subst message_loop.simps) (simp add: u2)
  have 3: "direct_mode ee (a + 1) (ee a) =
           Option.bind (direct_mode ee (a + 1 + 1) (ee (a + 1)))
             (\<lambda>r. Some (fst r, PrintByte 0 # snd r))"
    using assms by (subst direct_mode.simps) simp
  from 1 2 3 show ?thesis by (simp add: add.assoc)
qed

theorem zero_inside_unit_witness:
  "message_loop sample_config (ee_of [3, 0x5E, 0, 0x41, 0x7E, 0, 0x42, 0xFF, 0, 7, 0xFF, 0x43, 0, 0]) 2 0x5E =
     Some (13, [PrintChar 63, PrintByte 0, PrintChar 0x41, PrintByte 0, PrintByte 0,
                PrintChar 0x42, PrintByte 0, PrintByte 0, PrintByte 7, PrintByte 0, PrintChar 0x43])
   \<and> message_loop sample_config (ee_of [3, 0x5E, 0, 0x41, 0x7E, 0, 0x42, 0xFF, 0, 7, 0xFF, 0x43, 0, 0]) 5 0x7E =
     Some (13, [PrintByte 0, PrintChar 0x42, PrintByte 0, PrintByte 0, PrintByte 7, PrintByte 0,
                PrintChar 0x43])
   \<and> direct_mode (ee_of [3, 0x5E, 0, 0x41, 0x7E, 0, 0x42, 0xFF, 0, 7, 0xFF, 0x43, 0, 0]) 9 0 =
     Some (11, [PrintByte 0, PrintByte 7])"
proof -
  let ?ee = "ee_of [3, 0x5E, 0, 0x41, 0x7E, 0, 0x42, 0xFF, 0, 7, 0xFF, 0x43, 0, 0]"
  have z: "?ee 2 = 0" "?ee 5 = 0" "?ee 8 = 0" "?ee 3 = 0x41" "?ee 6 = 0x42" "?ee 9 = 7"
    by (simp_all add: ee_of_def)
  have n: "ANIMATION_COUNT sample_config \<le> 191"
    by (simp add: sample_config_def)
  have r1: "message_loop sample_config ?ee 4 0x41 =
     Some (13, [PrintChar 0x41, PrintByte 0, PrintByte 0, PrintChar 0x42, PrintByte 0,
                PrintByte 0, PrintByte 7, PrintByte 0, PrintChar 0x43])"
    by code_simp
  have r2: "message_loop sample_config ?ee 7 0x42 =
     Some (13, [PrintChar 0x42, PrintByte 0, PrintByte 0, PrintByte 7, PrintByte 0, PrintChar 0x43])"
    by code_simp
  have r3: "direct_mode ?ee 10 7 = Some (11, [PrintByte 7])"
    by code_simp
  show ?thesis
    using zero_inside_unit [of ?ee 2 sample_config] zero_inside_unit [of ?ee 5 sample_config]
      zero_inside_unit [of ?ee 8 sample_config]
    by (simp add: z n r1 r2 r3 narrow_space_def)
qed

section \<open>Properties of the push button logic\<close>

text \<open>Bit operations on the button byte.\<close>

lemma and_not_or_self: "(p :: u8) AND NOT (p OR a) = 0"
  by (auto simp: bit_eq_iff bit_and_iff bit_not_iff bit_or_iff)

lemma or_and_mask:
  "(b :: u8) AND p = 0 \<Longrightarrow> a AND p = 0 \<Longrightarrow> (b OR a) AND p = 0"
  by (simp add: bit.conj_disj_distrib2)

lemma or_and_not_or: "((l :: u8) OR a) AND NOT (p OR a) = l AND NOT (p OR a)"
  by (auto simp: bit_eq_iff bit_and_iff bit_not_iff bit_or_iff)

lemma and_not_or_and: "((l :: u8) AND NOT (p OR a)) AND p = 0"
  by (auto simp: bit_eq_iff bit_and_iff bit_not_iff bit_or_iff)

lemma or_and_left: "(a :: u8) AND p = 0 \<Longrightarrow> (l OR a) AND p = l AND p"
  by (simp add: bit.conj_disj_distrib2)

lemma or_eq_imp: "(a :: u8) AND p = 0 \<Longrightarrow> l OR a = p \<Longrightarrow> l = p"
proof -
  assume a: "a AND p = 0" and e: "l OR a = p"
  have "a AND (l OR a) = a"
    by (auto simp: bit_eq_iff bit_and_iff bit_or_iff)
  with a e have "a = 0" by simp
  with e show "l = p" by simp
qed

text \<open>Consequences of the relations between the button constants.\<close>

lemma button_codes_facts:
  assumes "button_codes_ok cfg"
  shows "PB_PRESS cfg \<noteq> 0"
    and "PB_LONGPRESS cfg \<noteq> 0"
    and "PB_LONGPRESS cfg \<noteq> PB_PRESS cfg"
    and "PB_LONGPRESS cfg OR PB_ACK cfg \<noteq> PB_PRESS cfg"
    and "PB_LONGPRESS cfg OR PB_ACK cfg \<noteq> 0"
    and "(PB_LONGPRESS cfg OR PB_ACK cfg) AND PB_PRESS cfg \<noteq> 0"
    and "PB_LONGPRESS cfg AND NOT (PB_PRESS cfg OR PB_ACK cfg) \<noteq> PB_LONGPRESS cfg"
proof -
  from assms have a: "PB_ACK cfg AND PB_PRESS cfg = 0"
    and lp: "PB_LONGPRESS cfg AND PB_PRESS cfg \<noteq> 0"
    and lr: "PB_LONGPRESS cfg AND NOT (PB_PRESS cfg OR PB_ACK cfg) \<noteq> 0"
    by (simp_all add: button_codes_ok_def)
  from lp show p: "PB_PRESS cfg \<noteq> 0" by auto
  from lp show l: "PB_LONGPRESS cfg \<noteq> 0" by auto
  from lr show lnp: "PB_LONGPRESS cfg \<noteq> PB_PRESS cfg"
    by (metis and_not_or_self)
  from lnp show "PB_LONGPRESS cfg OR PB_ACK cfg \<noteq> PB_PRESS cfg"
    using or_eq_imp [OF a] by blast
  from l show "PB_LONGPRESS cfg OR PB_ACK cfg \<noteq> 0" by (simp add: or_eq_0_iff)
  from lp show "(PB_LONGPRESS cfg OR PB_ACK cfg) AND PB_PRESS cfg \<noteq> 0"
    by (simp add: or_and_left [OF a])
  show "PB_LONGPRESS cfg AND NOT (PB_PRESS cfg OR PB_ACK cfg) \<noteq> PB_LONGPRESS cfg"
  proof
    assume "PB_LONGPRESS cfg AND NOT (PB_PRESS cfg OR PB_ACK cfg) = PB_LONGPRESS cfg"
    then have "PB_LONGPRESS cfg AND PB_PRESS cfg =
        (PB_LONGPRESS cfg AND NOT (PB_PRESS cfg OR PB_ACK cfg)) AND PB_PRESS cfg"
      by simp
    with lp show False by (simp only: and_not_or_and)
  qed
qed

text \<open>The acknowledgements of the main loop between two ticks.\<close>

lemma acknowledge_funpow:
  "(acknowledge cfg ^^ n) b = (if n = 0 then b else b OR PB_ACK cfg)"
  by (induction n) (simp_all add: acknowledge_def or.assoc)

lemma acknowledge_released:
  assumes "button_codes_ok cfg" and "b AND PB_PRESS cfg = 0"
  shows "(acknowledge cfg ^^ n) b AND PB_PRESS cfg = 0"
proof -
  have "PB_ACK cfg AND PB_PRESS cfg = 0"
    using assms(1) by (simp add: button_codes_ok_def)
  with assms(2) show ?thesis
    by (simp add: acknowledge_funpow or_and_mask)
qed

lemma acknowledge_long:
  assumes "b = PB_LONGPRESS cfg \<or> b = PB_LONGPRESS cfg OR PB_ACK cfg"
  shows "(acknowledge cfg ^^ n) b = PB_LONGPRESS cfg \<or>
         (acknowledge cfg ^^ n) b = PB_LONGPRESS cfg OR PB_ACK cfg"
  using assms by (auto simp: acknowledge_funpow or.assoc)

text \<open>
  The timer interrupt changes \<open>button\<close> and \<open>pb_timer\<close> as the push button
  sampling does. The single steps of the sampling follow.
\<close>

lemma TIMER0_COMPB_button:
  "(button (fst (TIMER0_COMPB cfg pin s)), pb_timer (fst (TIMER0_COMPB cfg pin s))) =
     push_button_sampling cfg pin (button s, pb_timer s)"
  by (simp add: TIMER0_COMPB_def Let_def)

lemma sample_new_press:
  "pressed cfg pin \<Longrightarrow> b AND PB_PRESS cfg = 0 \<Longrightarrow>
   push_button_sampling cfg pin (b, t) = (PB_PRESS cfg, PB_LONGPRESS_DELAY cfg)"
  by (simp add: push_button_sampling_def pressed_def)

lemma sample_hold:
  "pressed cfg pin \<Longrightarrow> PB_PRESS cfg \<noteq> 0 \<Longrightarrow>
   push_button_sampling cfg pin (PB_PRESS cfg, t) =
     (if t = 0 then (PB_LONGPRESS cfg, t) else (PB_PRESS cfg, t - 1))"
  by (simp add: push_button_sampling_def pressed_def)

lemma sample_hold_long:
  "pressed cfg pin \<Longrightarrow> b AND PB_PRESS cfg \<noteq> 0 \<Longrightarrow> b \<noteq> PB_PRESS cfg \<Longrightarrow>
   push_button_sampling cfg pin (b, t) = (b, t)"
  by (simp add: push_button_sampling_def pressed_def)

lemma sample_release:
  "\<not> pressed cfg pin \<Longrightarrow> b AND PB_PRESS cfg \<noteq> 0 \<Longrightarrow>
   push_button_sampling cfg pin (b, t) = (b AND NOT (PB_PRESS cfg OR PB_ACK cfg), t)"
  by (simp add: push_button_sampling_def pressed_def Let_def)

lemma sample_idle:
  "\<not> pressed cfg pin \<Longrightarrow> b AND PB_PRESS cfg = 0 \<Longrightarrow>
   push_button_sampling cfg pin (b, t) = (b, t)"
  by (simp add: push_button_sampling_def pressed_def)

text \<open>Released samples in a released state issue nothing.\<close>

lemma events_released:
  assumes ok: "button_codes_ok cfg"
  shows "\<forall>x\<in>set rs. \<not> pressed cfg (fst x) \<Longrightarrow> b AND PB_PRESS cfg = 0 \<Longrightarrow>
         button_events cfg rs (b, t) = []"
proof (induction rs arbitrary: b)
  case Nil
  show ?case by simp
next
  case (Cons x rs)
  from Cons.prems have x: "\<not> pressed cfg (fst x)" and rs: "\<forall>x\<in>set rs. \<not> pressed cfg (fst x)"
    by simp_all
  have step: "push_button_sampling cfg (fst x) (b, t) = (b, t)"
    using sample_idle [OF x Cons.prems(2)] .
  have "button_events cfg rs ((acknowledge cfg ^^ snd x) b, t) = []"
    using Cons.IH [OF rs acknowledge_released [OF ok Cons.prems(2)]] .
  with step show ?case
    by (simp add: issued_def)
qed

text \<open>After the long press has been issued, holding and releasing issue nothing.\<close>

lemma events_after_long:
  assumes ok: "button_codes_ok cfg"
  shows "\<forall>x\<in>set ps. pressed cfg (fst x) \<Longrightarrow> \<forall>x\<in>set rs. \<not> pressed cfg (fst x) \<Longrightarrow>
         b = PB_LONGPRESS cfg \<or> b = PB_LONGPRESS cfg OR PB_ACK cfg \<Longrightarrow>
         button_events cfg (ps @ rs) (b, t) = []"
proof (induction ps arbitrary: b)
  case Nil
  note facts = button_codes_facts [OF ok]
  from ok have a: "PB_ACK cfg AND PB_PRESS cfg = 0" and r0: "PB_RELEASE cfg = 0"
    and lr: "PB_LONGPRESS cfg AND NOT (PB_PRESS cfg OR PB_ACK cfg) \<noteq> 0"
    and lp: "PB_LONGPRESS cfg AND PB_PRESS cfg \<noteq> 0"
    by (simp_all add: button_codes_ok_def)
  let ?r = "PB_LONGPRESS cfg AND NOT (PB_PRESS cfg OR PB_ACK cfg)"
  from Nil.prems(3) lp have bp: "b AND PB_PRESS cfg \<noteq> 0"
    by (auto simp: or_and_left [OF a])
  from Nil.prems(3) have br: "b AND NOT (PB_PRESS cfg OR PB_ACK cfg) = ?r"
    by (auto simp only: or_and_not_or)
  show ?case
  proof (cases rs)
    case Nil
    then show ?thesis by simp
  next
    case (Cons x rs')
    with Nil.prems(2) have x: "\<not> pressed cfg (fst x)"
      and rs': "\<forall>x\<in>set rs'. \<not> pressed cfg (fst x)"
      by simp_all
    have step: "push_button_sampling cfg (fst x) (b, t) = (?r, t)"
      using sample_release [OF x bp, of t] br by (simp only:)
    have rest: "button_events cfg rs' ((acknowledge cfg ^^ snd x) ?r, t) = []"
      using events_released [OF ok rs' acknowledge_released [OF ok and_not_or_and]] .
    have "issued cfg b ?r = []"
      using lr facts(7) r0 by (simp add: issued_def)
    with step rest Cons show ?thesis
      by (simp del: bit.de_Morgan_disj)
  qed
next
  case (Cons x ps)
  note facts = button_codes_facts [OF ok]
  from ok have a: "PB_ACK cfg AND PB_PRESS cfg = 0"
    and lp: "PB_LONGPRESS cfg AND PB_PRESS cfg \<noteq> 0"
    by (simp_all add: button_codes_ok_def)
  from Cons.prems have x: "pressed cfg (fst x)" and ps: "\<forall>x\<in>set ps. pressed cfg (fst x)"
    by simp_all
  from Cons.prems(3) lp have bp: "b AND PB_PRESS cfg \<noteq> 0"
    by (auto simp: or_and_left [OF a])
  from Cons.prems(3) facts(3,4) have bn: "b \<noteq> PB_PRESS cfg"
    by auto
  have step: "push_button_sampling cfg (fst x) (b, t) = (b, t)"
    using sample_hold_long [OF x bp bn] .
  have "button_events cfg (ps @ rs) ((acknowledge cfg ^^ snd x) b, t) = []"
    using Cons.IH [OF ps Cons.prems(2) acknowledge_long [OF Cons.prems(3)]] .
  with step show ?case
    by (simp add: issued_def)
qed

text \<open>
  A press that has been acknowledged while it was counted
  (\<open>button = PB_PRESS | PB_ACK\<close>) is not counted any further: holding issues
  nothing, and the release issues the short press.
\<close>

lemma events_acknowledged_press:
  assumes ok: "button_codes_ok cfg" and ack: "PB_ACK cfg \<noteq> 0"
  shows "\<forall>x\<in>set ps. pressed cfg (fst x) \<Longrightarrow> \<forall>x\<in>set rs. \<not> pressed cfg (fst x) \<Longrightarrow>
         rs \<noteq> [] \<Longrightarrow>
         button_events cfg (ps @ rs) (PB_PRESS cfg OR PB_ACK cfg, t) = [ShortPress]"
proof (induction ps)
  case Nil
  note facts = button_codes_facts [OF ok]
  from ok have a: "PB_ACK cfg AND PB_PRESS cfg = 0" and r0: "PB_RELEASE cfg = 0"
    by (simp_all add: button_codes_ok_def)
  from Nil.prems(3) obtain x rs' where rs: "rs = x # rs'"
    by (cases rs) auto
  with Nil.prems(2) have x: "\<not> pressed cfg (fst x)"
    and rs': "\<forall>x\<in>set rs'. \<not> pressed cfg (fst x)"
    by simp_all
  have bp: "(PB_PRESS cfg OR PB_ACK cfg) AND PB_PRESS cfg \<noteq> 0"
    using facts(1) by (simp add: or_and_left [OF a])
  have z: "(PB_PRESS cfg OR PB_ACK cfg) AND NOT (PB_PRESS cfg OR PB_ACK cfg) = 0"
    by (simp only: bit.conj_cancel_right)
  have step: "push_button_sampling cfg (fst x) (PB_PRESS cfg OR PB_ACK cfg, t) = (0, t)"
    using sample_release [OF x bp, of t] by (simp only: z)
  have z0: "(0 :: u8) AND PB_PRESS cfg = 0"
    by simp
  have rest: "button_events cfg rs' ((acknowledge cfg ^^ snd x) 0, t) = []"
    using events_released [OF ok rs' acknowledge_released [OF ok z0]] .
  have "PB_PRESS cfg OR PB_ACK cfg \<noteq> 0"
    using facts(1) by (simp add: or_eq_0_iff)
  then have "issued cfg (PB_PRESS cfg OR PB_ACK cfg) 0 = [ShortPress]"
    using facts(2) r0 by (auto simp: issued_def)
  with step rest rs show ?case
    by simp
next
  case (Cons x ps)
  note facts = button_codes_facts [OF ok]
  from ok have a: "PB_ACK cfg AND PB_PRESS cfg = 0"
    by (simp add: button_codes_ok_def)
  from Cons.prems have x: "pressed cfg (fst x)" and ps: "\<forall>x\<in>set ps. pressed cfg (fst x)"
    by simp_all
  have bp: "(PB_PRESS cfg OR PB_ACK cfg) AND PB_PRESS cfg \<noteq> 0"
    using facts(1) by (simp add: or_and_left [OF a])
  have bn: "PB_PRESS cfg OR PB_ACK cfg \<noteq> PB_PRESS cfg"
  proof
    assume e: "PB_PRESS cfg OR PB_ACK cfg = PB_PRESS cfg"
    have "PB_ACK cfg AND (PB_PRESS cfg OR PB_ACK cfg) = PB_ACK cfg"
      by (auto simp: bit_eq_iff bit_and_iff bit_or_iff)
    with e a ack show False by simp
  qed
  have step: "push_button_sampling cfg (fst x) (PB_PRESS cfg OR PB_ACK cfg, t) =
      (PB_PRESS cfg OR PB_ACK cfg, t)"
    using sample_hold_long [OF x bp bn] .
  have same: "(acknowledge cfg ^^ snd x) (PB_PRESS cfg OR PB_ACK cfg) = PB_PRESS cfg OR PB_ACK cfg"
    by (simp add: acknowledge_funpow or.assoc)
  have "button_events cfg (ps @ rs) (PB_PRESS cfg OR PB_ACK cfg, t) = [ShortPress]"
    using Cons.IH [OF ps Cons.prems(2,3)] .
  with step same show ?case
    by (simp add: issued_def)
qed

text \<open>
  While the press is counted (\<open>button = PB_PRESS\<close>), the number of further
  pressed samples and the acknowledgements after them decide between the two
  events.
\<close>

lemma events_counting:
  assumes ok: "button_codes_ok cfg" and ack: "PB_ACK cfg \<noteq> 0"
  shows "\<forall>x\<in>set ps. pressed cfg (fst x) \<Longrightarrow> \<forall>x\<in>set rs. \<not> pressed cfg (fst x) \<Longrightarrow>
         rs \<noteq> [] \<Longrightarrow>
         button_events cfg (ps @ rs) (PB_PRESS cfg, t) =
           (if length ps \<le> unat t \<or> (\<exists>x\<in>set (take (unat t) ps). snd x \<noteq> 0)
            then [ShortPress] else [LongPress])"
proof (induction ps arbitrary: t)
  case Nil
  note facts = button_codes_facts [OF ok]
  from ok have r0: "PB_RELEASE cfg = 0"
    by (simp add: button_codes_ok_def)
  from Nil.prems(3) obtain x rs' where rs: "rs = x # rs'"
    by (cases rs) auto
  with Nil.prems(2) have x: "\<not> pressed cfg (fst x)"
    and rs': "\<forall>x\<in>set rs'. \<not> pressed cfg (fst x)"
    by simp_all
  have pp: "PB_PRESS cfg AND PB_PRESS cfg \<noteq> 0"
    using facts(1) by simp
  have step: "push_button_sampling cfg (fst x) (PB_PRESS cfg, t) = (0, t)"
    using sample_release [OF x pp, of t] by (simp only: and_not_or_self)
  have z: "(0 :: u8) AND PB_PRESS cfg = 0"
    by simp
  have rest: "button_events cfg rs' ((acknowledge cfg ^^ snd x) 0, t) = []"
    using events_released [OF ok rs' acknowledge_released [OF ok z]] .
  have "issued cfg (PB_PRESS cfg) 0 = [ShortPress]"
    using facts(1,2) r0 by (auto simp: issued_def)
  with step rest rs show ?case
    by simp
next
  case (Cons x ps)
  note facts = button_codes_facts [OF ok]
  from ok have r0: "PB_RELEASE cfg = 0"
    by (simp add: button_codes_ok_def)
  from Cons.prems have x: "pressed cfg (fst x)" and ps: "\<forall>x\<in>set ps. pressed cfg (fst x)"
    by simp_all
  show ?case
  proof (cases "t = 0")
    case True
    have step: "push_button_sampling cfg (fst x) (PB_PRESS cfg, t) = (PB_LONGPRESS cfg, t)"
      using sample_hold [OF x facts(1), of t] True by simp
    have rest: "button_events cfg (ps @ rs) ((acknowledge cfg ^^ snd x) (PB_LONGPRESS cfg), t) = []"
      using events_after_long [OF ok ps Cons.prems(2) acknowledge_long] by simp
    have "issued cfg (PB_PRESS cfg) (PB_LONGPRESS cfg) = [LongPress]"
      using facts(2,3) r0 by (auto simp: issued_def)
    with step rest True show ?thesis
      by simp
  next
    case False
    have step: "push_button_sampling cfg (fst x) (PB_PRESS cfg, t) = (PB_PRESS cfg, t - 1)"
      using sample_hold [OF x facts(1), of t] False by simp
    have none: "issued cfg (PB_PRESS cfg) (PB_PRESS cfg) = []"
      by (simp add: issued_def)
    have "unat t \<noteq> 0"
      using False by (simp add: unat_eq_0)
    then have ut: "unat t = Suc (unat (t - 1))"
      using unat_minus_one [OF False] by simp
    show ?thesis
    proof (cases "snd x = 0")
      case True
      have rest: "button_events cfg (ps @ rs) (PB_PRESS cfg, t - 1) =
          (if length ps \<le> unat (t - 1) \<or> (\<exists>x\<in>set (take (unat (t - 1)) ps). snd x \<noteq> 0)
           then [ShortPress] else [LongPress])"
        using Cons.IH [OF ps Cons.prems(2,3), of "t - 1"] .
      from step none rest True show ?thesis
        by (simp add: ut)
    next
      case nz: False
      have rest: "button_events cfg (ps @ rs) (PB_PRESS cfg OR PB_ACK cfg, t - 1) = [ShortPress]"
        using events_acknowledged_press [OF ok ack ps Cons.prems(2,3)] .
      from step none rest nz show ?thesis
        by (simp add: ut acknowledge_funpow)
    qed
  qed
qed

text \<open>
  C6 (as stated): every press held for at least the threshold issues one long
  press event and no short press event. In the sample configuration the
  threshold is 4 samples. At start-up \<open>button\<close> is \<open>PB_ACK\<close> and the main
  program executes \<^verbatim>\<open>button |= PB_ACK\<close> when \<^verbatim>\<open>GoToSleep\<close> returns. The press
  that wakes the controller is sampled twice, the statement then makes
  \<open>button\<close> the value \<open>PB_PRESS | PB_ACK\<close> (0x81) and the timer stops counting;
  the button is held for four more samples, six in all, and released: the
  ticks issue a short press event and no long press event.
\<close>

theorem wake_up_press_counterexample:
  "button_events sample_config
      [(0x00, 0), (0x00, 1), (0x00, 0), (0x00, 0), (0x00, 0), (0x00, 0), (0x40, 0)] (0x80, 0) =
     [ShortPress]
   \<and> long_press_samples sample_config = 4
   \<and> pressed sample_config 0x00 \<and> \<not> pressed sample_config 0x40
   \<and> push_button_sampling sample_config 0x00
        (acknowledge sample_config (fst (push_button_sampling sample_config 0x00
           (push_button_sampling sample_config 0x00 (0x80, 0)))), 1) = (0x81, 1)"
  by code_simp

text \<open>
  C6 (amended): one physical press and release, as the system tick samples it:
  the samples \<open>ps\<close> read the button pressed, the samples \<open>rs\<close> after them read
  it released, and after each tick the main loop executes
  \<^verbatim>\<open>button |= PB_ACK\<close> any number of times. Before the press the press bit of
  \<open>button\<close> is clear. The threshold is \<open>long_press_samples\<close>, that is
  \<open>PB_LONGPRESS_DELAY + 2\<close> pressed samples. The ticks issue exactly one event
  for the press. It is the long press event, issued once and not again while
  the button is held, and no short press event, when the button is held for
  at least the threshold and no acknowledgement falls after one of the first
  \<open>PB_LONGPRESS_DELAY + 1\<close> pressed samples, that is while the press is still
  counted. Otherwise it is the short press event and no long press event:
  when the button is held for fewer samples than the threshold, and also when
  an acknowledgement falls into the counted part of the press, whatever its
  length.
\<close>

theorem press_discrimination:
  assumes "button_codes_ok cfg" and "PB_ACK cfg \<noteq> 0"
    and "fst bt AND PB_PRESS cfg = 0"
    and "ps \<noteq> []" and "\<forall>x\<in>set ps. pressed cfg (fst x)"
    and "rs \<noteq> []" and "\<forall>x\<in>set rs. \<not> pressed cfg (fst x)"
  shows "button_events cfg (ps @ rs) bt =
           (if length ps < long_press_samples cfg \<or>
               (\<exists>x\<in>set (take (long_press_samples cfg - 1) ps). snd x \<noteq> 0)
            then [ShortPress] else [LongPress])"
proof -
  note facts = button_codes_facts [OF assms(1)]
  from assms(1) have r0: "PB_RELEASE cfg = 0"
    by (simp add: button_codes_ok_def)
  from assms(4) obtain x ps' where ps: "ps = x # ps'"
    by (cases ps) auto
  with assms(5) have x: "pressed cfg (fst x)" and ps': "\<forall>x\<in>set ps'. pressed cfg (fst x)"
    by simp_all
  have step: "push_button_sampling cfg (fst x) bt = (PB_PRESS cfg, PB_LONGPRESS_DELAY cfg)"
    using sample_new_press [OF x assms(3), of "snd bt"] by simp
  have none: "issued cfg (fst bt) (PB_PRESS cfg) = []"
    using facts(1,3) r0 by (auto simp: issued_def)
  show ?thesis
  proof (cases "snd x = 0")
    case True
    have rest: "button_events cfg (ps' @ rs) (PB_PRESS cfg, PB_LONGPRESS_DELAY cfg) =
       (if length ps' \<le> unat (PB_LONGPRESS_DELAY cfg) \<or>
           (\<exists>x\<in>set (take (unat (PB_LONGPRESS_DELAY cfg)) ps'). snd x \<noteq> 0)
        then [ShortPress] else [LongPress])"
      using events_counting [OF assms(1,2) ps' assms(7,6)] .
    from step none rest ps True show ?thesis
      by (auto simp: long_press_samples_def)
  next
    case False
    have rest: "button_events cfg (ps' @ rs)
        (PB_PRESS cfg OR PB_ACK cfg, PB_LONGPRESS_DELAY cfg) = [ShortPress]"
      using events_acknowledged_press [OF assms(1,2) ps' assms(7,6)] .
    from step none rest ps False show ?thesis
      by (simp add: long_press_samples_def acknowledge_funpow)
  qed
qed

theorem press_discrimination_witness:
  "button_events sample_config [(0x00, 0), (0x00, 1), (0x00, 0), (0x40, 2), (0xFF, 1)] (0x80, 0) =
     [ShortPress]
   \<and> button_events sample_config
       [(0x00, 0), (0x00, 0), (0x00, 0), (0x00, 2), (0xBF, 1), (0x00, 1), (0x40, 2), (0xFF, 1)]
       (0x80, 0) = [LongPress]
   \<and> button_events sample_config
       [(0x00, 0), (0x00, 0), (0x00, 1), (0x00, 0), (0xBF, 0), (0x00, 0), (0x40, 0)]
       (0x80, 0) = [ShortPress]"
proof -
  have ok: "button_codes_ok sample_config" "PB_ACK sample_config \<noteq> 0"
    by (simp_all add: button_codes_ok_def sample_config_def)
  have n: "long_press_samples sample_config = 4"
    by (simp add: long_press_samples_def sample_config_def)
  have p: "pressed sample_config 0x00" "pressed sample_config 0xBF"
    "\<not> pressed sample_config 0x40" "\<not> pressed sample_config 0xFF"
    by (simp_all add: pressed_def sample_config_def)
  have s: "fst (0x80 :: u8, 0 :: u8) AND PB_PRESS sample_config = 0"
    by (simp add: sample_config_def)
  show ?thesis
    using press_discrimination [OF ok s, of "[(0x00, 0), (0x00, 1), (0x00, 0)]" "[(0x40, 2), (0xFF, 1)]"]
      press_discrimination [OF ok s, of "[(0x00, 0), (0x00, 0), (0x00, 0), (0x00, 2), (0xBF, 1), (0x00, 1)]"
        "[(0x40, 2), (0xFF, 1)]"]
      press_discrimination [OF ok s, of "[(0x00, 0), (0x00, 0), (0x00, 1), (0x00, 0), (0xBF, 0), (0x00, 0)]"
        "[(0x40, 0)]"]
    by (simp add: n p)
qed

end
